theory Spec2Isabelle
  imports Main "HOL-Library.Word"
begin

section \<open>Go integers and their decimal rendering\<close>

text \<open>
  Go's \<open>int\<close> is 64 bits wide on every platform the database is built for; it is a
  \<open>64 word\<close> read as two's complement (\<open>sint\<close>), compared with \<open><s\<close> and \<open>\<le>s\<close>.
\<close>

type_synonym go_int = "64 word"

text \<open>The \<open>%d\<close> verb of \<open>fmt\<close>: an optional minus sign and the decimal digits.\<close>

fun digits10 :: "nat \<Rightarrow> string" where
  "digits10 n =
     (if n < 10 then [''0123456789'' ! n]
      else digits10 (n div 10) @ [''0123456789'' ! (n mod 10)])"

declare digits10.simps [simp del]

definition fmt_d :: "int \<Rightarrow> string" where
  "fmt_d i = (if i < 0 then CHR ''-'' # digits10 (nat (- i)) else digits10 (nat i))"

section \<open>Errors\<close>

text \<open>
  A \<open>pgerror\<close> carries one of the codes this code base uses and a message; \<open>Errorf\<close> is
  an error of the \<open>errors\<close> package; \<open>Panic\<close> is a Go panic with its message.
\<close>

datatype Code =
    CodeInvalidParameterValueError
  | CodeNumericValueOutOfRangeError
  | CodeFeatureNotSupportedError
  | CodeInvalidTableDefinitionError

datatype error =
    PgError Code string
  | Errorf string
  | Panic string

section \<open>Column types (pkg/sql/parser/col\_types.go)\<close>

text \<open>
  \<open>Exprs\<close> is a list of expressions of the parser's syntax tree, which col\_types.go
  only stores.
\<close>

typedecl Expr

type_synonym Exprs = "Expr list"

type_synonym addr = nat

text \<open>
  A \<open>ColumnType\<close> (and \<open>CastTargetType\<close>) interface value holds a pointer to one of
  the eighteen structs below; the constructor is the dynamic type and its arguments are the
  struct's fields, in the order of the declaration. The structs are never written after
  they are built, and only pointers to \<open>OidColType\<close> are ever compared
  (\<open>oidColTypeToType\<close>), so only that variant keeps the address of its pointee,
  next to the pointee's contents.
\<close>

datatype ColumnType =
    BoolColType (Name: string)
  | IntColType (Name: string) (Width: go_int) (ImplicitWidth: bool)
  | FloatColType (Name: string) (Prec: go_int) (Width: go_int) (PrecSpecified: bool)
  | DecimalColType (Name: string) (Prec: go_int) (Scale: go_int)
  | DateColType
  | TimestampColType
  | TimestampTZColType
  | IntervalColType
  | UUIDColType
  | IPAddrColType (Name: string)
  | StringColType (Name: string) (N: go_int)
  | NameColType
  | BytesColType (Name: string)
  | CollatedStringColType (Name: string) (N: go_int) (Locale: string)
  | ArrayColType (Name: string) (ParamType: ColumnType) (BoundsExprs: Exprs)
  | VectorColType (Name: string) (ParamType: ColumnType)
  | JSONColType (Name: string)
  | OidColType (ptr: addr) (Name: string)

subsection \<open>Pre-allocated instances\<close>

text \<open>A field that a composite literal leaves out has its zero value.\<close>

definition boolColTypeBool :: ColumnType where
  "boolColTypeBool = BoolColType ''BOOL''"

definition boolColTypeBoolean :: ColumnType where
  "boolColTypeBoolean = BoolColType ''BOOLEAN''"

definition intColTypeBit :: ColumnType where
  "intColTypeBit = IntColType ''BIT'' 1 True"

definition intColTypeInt :: ColumnType where
  "intColTypeInt = IntColType ''INT'' 0 False"

definition intColTypeInt2 :: ColumnType where
  "intColTypeInt2 = IntColType ''INT2'' 16 True"

definition intColTypeInt4 :: ColumnType where
  "intColTypeInt4 = IntColType ''INT4'' 32 True"

definition intColTypeInt8 :: ColumnType where
  "intColTypeInt8 = IntColType ''INT8'' 0 False"

definition intColTypeInt64 :: ColumnType where
  "intColTypeInt64 = IntColType ''INT64'' 0 False"

definition intColTypeInteger :: ColumnType where
  "intColTypeInteger = IntColType ''INTEGER'' 0 False"

definition intColTypeSmallInt :: ColumnType where
  "intColTypeSmallInt = IntColType ''SMALLINT'' 16 True"

definition intColTypeBigInt :: ColumnType where
  "intColTypeBigInt = IntColType ''BIGINT'' 0 False"

definition intColTypeSerial :: ColumnType where
  "intColTypeSerial = IntColType ''SERIAL'' 0 False"

definition intColTypeSmallSerial :: ColumnType where
  "intColTypeSmallSerial = IntColType ''SMALLSERIAL'' 0 False"

definition intColTypeBigSerial :: ColumnType where
  "intColTypeBigSerial = IntColType ''BIGSERIAL'' 0 False"

definition floatColTypeReal :: ColumnType where
  "floatColTypeReal = FloatColType ''REAL'' 0 32 False"

definition floatColTypeFloat :: ColumnType where
  "floatColTypeFloat = FloatColType ''FLOAT'' 0 64 False"

definition floatColTypeFloat4 :: ColumnType where
  "floatColTypeFloat4 = FloatColType ''FLOAT4'' 0 32 False"

definition floatColTypeFloat8 :: ColumnType where
  "floatColTypeFloat8 = FloatColType ''FLOAT8'' 0 64 False"

definition floatColTypeDouble :: ColumnType where
  "floatColTypeDouble = FloatColType ''DOUBLE PRECISION'' 0 64 False"

definition decimalColTypeDec :: ColumnType where
  "decimalColTypeDec = DecimalColType ''DEC'' 0 0"

definition decimalColTypeDecimal :: ColumnType where
  "decimalColTypeDecimal = DecimalColType ''DECIMAL'' 0 0"

definition decimalColTypeNumeric :: ColumnType where
  "decimalColTypeNumeric = DecimalColType ''NUMERIC'' 0 0"

definition dateColTypeDate :: ColumnType where
  "dateColTypeDate = DateColType"

definition timestampColTypeTimestamp :: ColumnType where
  "timestampColTypeTimestamp = TimestampColType"

definition timestampTzColTypeTimestampWithTZ :: ColumnType where
  "timestampTzColTypeTimestampWithTZ = TimestampTZColType"

definition intervalColTypeInterval :: ColumnType where
  "intervalColTypeInterval = IntervalColType"

definition uuidColTypeUUID :: ColumnType where
  "uuidColTypeUUID = UUIDColType"

definition ipnetColTypeINet :: ColumnType where
  "ipnetColTypeINet = IPAddrColType ''INET''"

definition stringColTypeChar :: ColumnType where
  "stringColTypeChar = StringColType ''CHAR'' 0"

definition stringColTypeVarChar :: ColumnType where
  "stringColTypeVarChar = StringColType ''VARCHAR'' 0"

definition stringColTypeString :: ColumnType where
  "stringColTypeString = StringColType ''STRING'' 0"

definition stringColTypeText :: ColumnType where
  "stringColTypeText = StringColType ''TEXT'' 0"

definition nameColTypeName :: ColumnType where
  "nameColTypeName = NameColType"

definition bytesColTypeBlob :: ColumnType where
  "bytesColTypeBlob = BytesColType ''BLOB''"

definition bytesColTypeBytes :: ColumnType where
  "bytesColTypeBytes = BytesColType ''BYTES''"

definition bytesColTypeBytea :: ColumnType where
  "bytesColTypeBytea = BytesColType ''BYTEA''"

definition int2vectorColType :: ColumnType where
  "int2vectorColType = VectorColType ''INT2VECTOR'' intColTypeInt"

definition jsonColType :: ColumnType where
  "jsonColType = JSONColType ''JSON''"

definition jsonbColType :: ColumnType where
  "jsonbColType = JSONColType ''JSONB''"

text \<open>
  The six \<open>OidColType\<close> variables are allocated once, when the package is initialised, at
  six distinct addresses.
\<close>

definition oidColTypeOid :: ColumnType where
  "oidColTypeOid = OidColType 0 ''OID''"

definition oidColTypeRegClass :: ColumnType where
  "oidColTypeRegClass = OidColType 1 ''REGCLASS''"

definition oidColTypeRegNamespace :: ColumnType where
  "oidColTypeRegNamespace = OidColType 2 ''REGNAMESPACE''"

definition oidColTypeRegProc :: ColumnType where
  "oidColTypeRegProc = OidColType 3 ''REGPROC''"

definition oidColTypeRegProcedure :: ColumnType where
  "oidColTypeRegProcedure = OidColType 4 ''REGPROCEDURE''"

definition oidColTypeRegType :: ColumnType where
  "oidColTypeRegType = OidColType 5 ''REGTYPE''"

text \<open>
  The allocator's state is the list of the \<open>OidColType\<close> variables allocated so far,
  each at the address that is its index; \<open>package_heap\<close> is the state once the package
  is initialised. \<open>&OidColType{Name: n}\<close> allocates a new variable, at an address that
  is not in use.
\<close>

definition package_heap :: "string list" where
  "package_heap = [''OID'', ''REGCLASS'', ''REGNAMESPACE'', ''REGPROC'', ''REGPROCEDURE'', ''REGTYPE'']"

definition new_OidColType :: "string list \<Rightarrow> string \<Rightarrow> ColumnType \<times> string list" where
  "new_OidColType h n = (OidColType (length h) n, h @ [n])"

definition NewFloatColType :: "go_int \<Rightarrow> bool \<Rightarrow> ColumnType" where
  "NewFloatColType prec precSpecified =
     (if prec = 0 \<and> \<not> precSpecified then floatColTypeFloat
      else FloatColType ''FLOAT'' prec 64 precSpecified)"

definition errBitLengthNotPositive :: error where
  "errBitLengthNotPositive =
     PgError CodeInvalidParameterValueError ''length for type bit must be at least 1''"

definition newIntBitType :: "go_int \<Rightarrow> error + ColumnType" where
  "newIntBitType width =
     (if width <s 1 then Inl errBitLengthNotPositive else Inr (IntColType ''BIT'' width False))"

definition IsSerial :: "ColumnType \<Rightarrow> bool" where
  "IsSerial node =
     (Name node = Name intColTypeSerial \<or> Name node = Name intColTypeSmallSerial
      \<or> Name node = Name intColTypeBigSerial)"

subsection \<open>Format\<close>

text \<open>
  \<open>node.Format(buf, f)\<close> appends to the buffer; the model takes the buffer's contents
  and returns the new contents. \<open>encodeUnrestrictedSQLIdent\<close> is defined elsewhere in
  the package: \<open>enc s f\<close> is the text it appends for the identifier \<open>s\<close> under the
  flags \<open>f\<close>.
\<close>

fun Format :: "(string \<Rightarrow> 'f \<Rightarrow> string) \<Rightarrow> ColumnType \<Rightarrow> string \<Rightarrow> 'f \<Rightarrow> string" where
  "Format enc (BoolColType name) buf f = buf @ name"
| "Format enc (IntColType name width implicitWidth) buf f =
     (let buf = buf @ name in
      if 0 <s width \<and> \<not> implicitWidth then buf @ ''('' @ fmt_d (sint width) @ '')''
      else buf)"
| "Format enc (FloatColType name prec width precSpecified) buf f =
     (let buf = buf @ name in
      if 0 <s prec then buf @ ''('' @ fmt_d (sint prec) @ '')'' else buf)"
| "Format enc (DecimalColType name prec scale) buf f =
     (let buf = buf @ name in
      if 0 <s prec then
        (let buf = buf @ ''('' @ fmt_d (sint prec);
             buf = (if 0 <s scale then buf @ '','' @ fmt_d (sint scale) else buf)
         in buf @ '')'')
      else buf)"
| "Format enc DateColType buf f = buf @ ''DATE''"
| "Format enc TimestampColType buf f = buf @ ''TIMESTAMP''"
| "Format enc TimestampTZColType buf f = buf @ ''TIMESTAMP WITH TIME ZONE''"
| "Format enc IntervalColType buf f = buf @ ''INTERVAL''"
| "Format enc UUIDColType buf f = buf @ ''UUID''"
| "Format enc (IPAddrColType name) buf f = buf @ name"
| "Format enc (StringColType name n) buf f =
     (let buf = buf @ name in
      if 0 <s n then buf @ ''('' @ fmt_d (sint n) @ '')'' else buf)"
| "Format enc NameColType buf f = buf @ ''NAME''"
| "Format enc (BytesColType name) buf f = buf @ name"
| "Format enc (CollatedStringColType name n locale) buf f =
     (let buf = buf @ name;
          buf = (if 0 <s n then buf @ ''('' @ fmt_d (sint n) @ '')'' else buf);
          buf = buf @ '' COLLATE ''
      in buf @ enc locale f)"
| "Format enc (ArrayColType name paramType boundsExprs) buf f =
     (let buf = buf @ name in
      case paramType of
        CollatedStringColType cname cn clocale \<Rightarrow> buf @ '' COLLATE '' @ enc clocale f
      | _ \<Rightarrow> buf)"
| "Format enc (VectorColType name paramType) buf f = buf @ name"
| "Format enc (JSONColType name) buf f = buf @ name"
| "Format enc (OidColType p name) buf f = buf @ name"

text \<open>
  Modelled from the spec: \<open>AsString\<close>, which every \<open>String()\<close> method of this file
  calls, is defined in another file of the package. It renders the node into an empty
  buffer under the package's simple flags \<open>FmtSimple\<close>, here \<open>fs\<close>.
\<close>

definition AsString :: "(string \<Rightarrow> 'f \<Rightarrow> string) \<Rightarrow> 'f \<Rightarrow> ColumnType \<Rightarrow> string" where
  "AsString enc fs node = Format enc node [] fs"

section \<open>Value types (pkg/sql/sem/types)\<close>

text \<open>
  Modelled from the spec: the declarations of \<open>types.T\<close> and of its values are in
  pkg/sql/sem/types, which is not among the sources. The spec's \<open>ValueType\<close> lists the
  primitive tags, the OID family, arrays, collated strings and the \<open>Null\<close> marker; the
  constructors are the values and types that col\_types.go and the tests name, pairwise
  distinct. \<open>TOidWrapper\<close> keeps the one field that this code reads.
\<close>

datatype T =
    TypeBool | TypeInt | TypeFloat | TypeDecimal | TypeString | TypeBytes | TypeDate
  | TypeTimestamp | TypeTimestampTZ | TypeInterval | TypeJSON | TypeUUID | TypeINet
  | TypeName | TypeOid | TypeRegClass | TypeRegNamespace | TypeRegProc | TypeRegProcedure
  | TypeRegType | TypeIntVector | TypeNull
  | TCollatedString string
  | TArray T
  | TOidWrapper T

section \<open>The cast target resolver\<close>

text \<open>
  \<open>switch ct\<close> compares the pointer \<open>ct\<close> with the six package variables: the
  addresses are compared, not the structs. The panic's \<open>%v\<close> prints \<open>ct\<close> through its
  \<open>String\<close> method, which writes the name.
\<close>

definition oidColTypeToType :: "addr \<Rightarrow> string \<Rightarrow> error + T" where
  "oidColTypeToType p name =
     (if p = ptr oidColTypeOid then Inr TypeOid
      else if p = ptr oidColTypeRegClass then Inr TypeRegClass
      else if p = ptr oidColTypeRegNamespace then Inr TypeRegNamespace
      else if p = ptr oidColTypeRegProc then Inr TypeRegProc
      else if p = ptr oidColTypeRegProcedure then Inr TypeRegProcedure
      else if p = ptr oidColTypeRegType then Inr TypeRegType
      else Inl (Panic (''unexpected *OidColType: '' @ name)))"

text \<open>\<open>tstr\<close> is the \<open>String\<close> method of \<open>types.T\<close>, which the messages print.\<close>

definition oidTypeToColType :: "(T \<Rightarrow> string) \<Rightarrow> T \<Rightarrow> error + ColumnType" where
  "oidTypeToColType tstr t =
     (if t = TypeOid then Inr oidColTypeOid
      else if t = TypeRegClass then Inr oidColTypeRegClass
      else if t = TypeRegNamespace then Inr oidColTypeRegNamespace
      else if t = TypeRegProc then Inr oidColTypeRegProc
      else if t = TypeRegProcedure then Inr oidColTypeRegProcedure
      else if t = TypeRegType then Inr oidColTypeRegType
      else Inl (Panic (''unexpected type: '' @ tstr t)))"

text \<open>
  The type switch of \<open>CastTargetToDatumType\<close> has a case for each of the eighteen structs;
  its \<open>default\<close> branch panics on any other dynamic type, of which this file declares
  none. A panic of a nested call unwinds through the caller.
\<close>

fun CastTargetToDatumType :: "ColumnType \<Rightarrow> error + T" where
  "CastTargetToDatumType (BoolColType name) = Inr TypeBool"
| "CastTargetToDatumType (IntColType name width implicitWidth) = Inr TypeInt"
| "CastTargetToDatumType (FloatColType name prec width precSpecified) = Inr TypeFloat"
| "CastTargetToDatumType (DecimalColType name prec scale) = Inr TypeDecimal"
| "CastTargetToDatumType (StringColType name n) = Inr TypeString"
| "CastTargetToDatumType NameColType = Inr TypeName"
| "CastTargetToDatumType (BytesColType name) = Inr TypeBytes"
| "CastTargetToDatumType DateColType = Inr TypeDate"
| "CastTargetToDatumType TimestampColType = Inr TypeTimestamp"
| "CastTargetToDatumType TimestampTZColType = Inr TypeTimestampTZ"
| "CastTargetToDatumType IntervalColType = Inr TypeInterval"
| "CastTargetToDatumType (JSONColType name) = Inr TypeJSON"
| "CastTargetToDatumType UUIDColType = Inr TypeUUID"
| "CastTargetToDatumType (IPAddrColType name) = Inr TypeINet"
| "CastTargetToDatumType (CollatedStringColType name n locale) = Inr (TCollatedString locale)"
| "CastTargetToDatumType (ArrayColType name paramType boundsExprs) =
     (case CastTargetToDatumType paramType of
        Inl e \<Rightarrow> Inl e
      | Inr typ \<Rightarrow> Inr (TArray typ))"
| "CastTargetToDatumType (VectorColType name paramType) = Inr TypeIntVector"
| "CastTargetToDatumType (OidColType p name) = oidColTypeToType p name"

subsection \<open>Arrays\<close>

text \<open>
  Modelled from the spec: \<open>canBeInArrayColType\<close> is called by \<open>arrayOf\<close> and defined in
  another file of the package, which is not among the sources. Sections 4.4 and 8: the
  check is a pure predicate over the variant of the element type, not over its fields;
  it excludes \<open>Array\<close> and \<open>Vector\<close> themselves, and \<open>INT\<close> is eligible. The spec
  names no other variant that is excluded.
\<close>

fun canBeInArrayColType :: "ColumnType \<Rightarrow> bool" where
  "canBeInArrayColType (ArrayColType name paramType boundsExprs) = False"
| "canBeInArrayColType (VectorColType name paramType) = False"
| "canBeInArrayColType colType = True"

definition arrayOf ::
  "(string \<Rightarrow> 'f \<Rightarrow> string) \<Rightarrow> 'f \<Rightarrow> ColumnType \<Rightarrow> Exprs \<Rightarrow> error + ColumnType" where
  "arrayOf enc fs colType boundsExprs =
     (if \<not> canBeInArrayColType colType then
        Inl (PgError CodeFeatureNotSupportedError
               (''arrays of '' @ AsString enc fs colType @ '' not allowed''))
      else Inr (ArrayColType (AsString enc fs colType @ ''[]'') colType boundsExprs))"

subsection \<open>From value types to column types\<close>

fun DatumTypeToColumnType ::
  "(string \<Rightarrow> 'f \<Rightarrow> string) \<Rightarrow> 'f \<Rightarrow> (T \<Rightarrow> string) \<Rightarrow> T \<Rightarrow> error + ColumnType" where
  "DatumTypeToColumnType enc fs tstr TypeBool = Inr boolColTypeBool"
| "DatumTypeToColumnType enc fs tstr TypeInt = Inr intColTypeInt"
| "DatumTypeToColumnType enc fs tstr TypeFloat = Inr floatColTypeFloat"
| "DatumTypeToColumnType enc fs tstr TypeDecimal = Inr decimalColTypeDecimal"
| "DatumTypeToColumnType enc fs tstr TypeTimestamp = Inr timestampColTypeTimestamp"
| "DatumTypeToColumnType enc fs tstr TypeTimestampTZ =
     Inr timestampTzColTypeTimestampWithTZ"
| "DatumTypeToColumnType enc fs tstr TypeInterval = Inr intervalColTypeInterval"
| "DatumTypeToColumnType enc fs tstr TypeJSON = Inr jsonColType"
| "DatumTypeToColumnType enc fs tstr TypeUUID = Inr uuidColTypeUUID"
| "DatumTypeToColumnType enc fs tstr TypeINet = Inr ipnetColTypeINet"
| "DatumTypeToColumnType enc fs tstr TypeDate = Inr dateColTypeDate"
| "DatumTypeToColumnType enc fs tstr TypeString = Inr stringColTypeString"
| "DatumTypeToColumnType enc fs tstr TypeName = Inr nameColTypeName"
| "DatumTypeToColumnType enc fs tstr TypeBytes = Inr bytesColTypeBytes"
| "DatumTypeToColumnType enc fs tstr TypeOid = oidTypeToColType tstr TypeOid"
| "DatumTypeToColumnType enc fs tstr TypeRegClass = oidTypeToColType tstr TypeRegClass"
| "DatumTypeToColumnType enc fs tstr TypeRegNamespace =
     oidTypeToColType tstr TypeRegNamespace"
| "DatumTypeToColumnType enc fs tstr TypeRegProc = oidTypeToColType tstr TypeRegProc"
| "DatumTypeToColumnType enc fs tstr TypeRegProcedure =
     oidTypeToColType tstr TypeRegProcedure"
| "DatumTypeToColumnType enc fs tstr TypeRegType = oidTypeToColType tstr TypeRegType"
| "DatumTypeToColumnType enc fs tstr (TCollatedString locale) =
     Inr (CollatedStringColType ''STRING'' 0 locale)"
| "DatumTypeToColumnType enc fs tstr (TArray typ) =
     (case DatumTypeToColumnType enc fs tstr typ of
        Inl err \<Rightarrow> Inl err
      | Inr elemTyp \<Rightarrow> arrayOf enc fs elemTyp [])"
| "DatumTypeToColumnType enc fs tstr (TOidWrapper t) =
     DatumTypeToColumnType enc fs tstr t"
| "DatumTypeToColumnType enc fs tstr t =
     Inl (PgError CodeInvalidTableDefinitionError
            (''value type '' @ tstr t @ '' cannot be used for table columns''))"

section \<open>The decimal width limiter\<close>

text \<open>
  Modelled from the spec: \<open>apd.Decimal\<close>, \<open>apd.Context\<close> and the conditions are types
  of the decimal library, which is not among the sources. A decimal is a form, a sign, a
  coefficient and a 32-bit exponent; a context has a precision, exponent limits, a rounding
  mode and the set of conditions that it turns into errors (its traps).
\<close>

datatype Form = Finite | Infinite | NaNSignaling | NaN

record Decimal =
  Form :: Form
  Negative :: bool
  Exponent :: "32 word"
  Coeff :: nat

datatype Flag =
    SystemOverflow | SystemUnderflow | Overflow | Underflow | Inexact | Subnormal | Rounded
  | DivisionUndefined | DivisionByZero | DivisionImpossible | InvalidOperation | Clamped

type_synonym Condition = "Flag set"

datatype Rounder = RoundDown | RoundHalfUp | RoundHalfEven

record Context =
  Precision :: "32 word"
  MaxExponent :: "32 word"
  MinExponent :: "32 word"
  Traps :: Condition
  Rounding :: Rounder

definition WithPrecision :: "Context \<Rightarrow> 32 word \<Rightarrow> Context" where
  "WithPrecision c p = c\<lparr>Precision := p\<rparr>"

definition errScaleOutOfRange :: error where
  "errScaleOutOfRange = PgError CodeNumericValueOutOfRangeError ''scale out of range''"

text \<open>
  \<open>LimitDecimalWidth(d, precision, scale)\<close> writes through the pointer \<open>d\<close> and returns
  an error or nil: the model returns the decimal that \<open>d\<close> points to afterwards and the
  error. \<open>DecimalCtx\<close> is a variable of another file of the package. \<open>Quantize c x exp\<close>
  is the library's \<open>c.Quantize(d, x, exp)\<close>: the decimal it leaves in \<open>d\<close>, the
  condition and the error that it returns. \<open>uint32(precision)\<close> and \<open>int32(scale)\<close>
  keep the low 32 bits, and the negation is that of \<open>int32\<close>.
\<close>

definition LimitDecimalWidth ::
  "Context \<Rightarrow> (Context \<Rightarrow> Decimal \<Rightarrow> 32 word \<Rightarrow> Decimal \<times> Condition \<times> 'e option)
     \<Rightarrow> Decimal \<Rightarrow> go_int \<Rightarrow> go_int \<Rightarrow> Decimal \<times> error option" where
  "LimitDecimalWidth DecimalCtx Quantize d precision scale =
     (if Form d \<noteq> Finite \<or> precision \<le>s 0 then (d, None)
      else if scale <s - 2147483648 + 1 \<or> 2147483647 <s scale then (d, Some errScaleOutOfRange)
      else if precision <s scale then
        (d, Some (PgError CodeInvalidParameterValueError
                    (''scale ('' @ fmt_d (sint scale) @ '') must be between 0 and precision (''
                       @ fmt_d (sint precision) @ '')'')))
      else
        (let c = WithPrecision DecimalCtx (ucast precision);
             c = c\<lparr>Traps := {InvalidOperation}\<rparr>
         in case Quantize c d (- ucast scale) of
              (d', res, Some err) \<Rightarrow>
                (let v = precision - scale;
                     lt = (if v = 0 then ''1'' else ''10^'' @ fmt_d (sint v))
                 in (d', Some (PgError CodeNumericValueOutOfRangeError
                                 (''value with precision '' @ fmt_d (sint precision)
                                    @ '', scale '' @ fmt_d (sint scale)
                                    @ '' must round to an absolute value less than '' @ lt))))
            | (d', res, None) \<Rightarrow> (d', None)))"

subsection \<open>The library's quantize\<close>

text \<open>
  Modelled from the spec: \<open>Context.Quantize\<close> belongs to the decimal library. Section 4.3
  words it: the value is rounded to the requested exponent under the context's precision,
  and the operation is invalid if the result needs more digits than the precision. The
  rounding is the context's. An invalid operation leaves a NaN and is an error if the
  context traps it.
\<close>

fun NumDigits :: "nat \<Rightarrow> nat" where
  "NumDigits n = (if n < 10 then 1 else Suc (NumDigits (n div 10)))"

declare NumDigits.simps [simp del]

definition round_coeff :: "Rounder \<Rightarrow> nat \<Rightarrow> nat \<Rightarrow> nat" where
  "round_coeff r c k =
     (let q = c div 10 ^ k; rest = c mod 10 ^ k; half = 5 * 10 ^ (k - 1)
      in case r of
           RoundDown \<Rightarrow> q
         | RoundHalfUp \<Rightarrow> (if half \<le> rest then q + 1 else q)
         | RoundHalfEven \<Rightarrow> (if half < rest \<or> (half = rest \<and> odd q) then q + 1 else q))"

definition rescale :: "Rounder \<Rightarrow> nat \<Rightarrow> int \<Rightarrow> int \<Rightarrow> nat" where
  "rescale r c xe e =
     (if e \<le> xe then c * 10 ^ nat (xe - e) else round_coeff r c (nat (e - xe)))"

definition invalid :: "Context \<Rightarrow> Decimal \<Rightarrow> Decimal \<times> Condition \<times> error option" where
  "invalid c x =
     (x\<lparr>Form := NaN\<rparr>, {InvalidOperation},
      if InvalidOperation \<in> Traps c then Some (Errorf ''invalid operation'') else None)"

definition Quantize :: "Context \<Rightarrow> Decimal \<Rightarrow> 32 word \<Rightarrow> Decimal \<times> Condition \<times> error option" where
  "Quantize c x exp =
     (if Form x = NaN then (x, {}, None)
      else if Form x \<noteq> Finite then invalid c x
      else
        (let coeff = rescale (Rounding c) (Coeff x) (sint (Exponent x)) (sint exp)
         in if unat (Precision c) < NumDigits coeff
               \<or> sint (MaxExponent c) < sint exp
               \<or> sint exp < sint (MinExponent c) - int (unat (Precision c)) + 1
            then invalid c x
            else (x\<lparr>Coeff := coeff, Exponent := exp\<rparr>,
                  (if sint exp \<le> sint (Exponent x)
                      \<or> Coeff x mod 10 ^ nat (sint exp - sint (Exponent x)) = 0
                   then {} else {Inexact, Rounded}),
                  None)))"

section \<open>Result columns (pkg/sql/sqlbase)\<close>

text \<open>
  Modelled from the spec: the declaration of \<open>ResultColumn\<close> is not among the sources.
  The spec lists a name, a value type (the field \<open>Typ\<close> of the test), an optional table
  identifier and the hidden flag.
\<close>

record ResultColumn =
  name :: string
  Typ :: T
  table_id :: "nat option"
  hidden :: bool

type_synonym ResultColumns = "ResultColumn list"

text \<open>
  Modelled from the spec: \<open>ResultColumns.TypesEqual\<close> is defined in
  pkg/sql/sqlbase/result\_columns.go, which is not among the sources; its test is. Section
  4.5: false if the lengths differ; otherwise the columns are compared by position, on
  their value types alone, and two value types match if they are structurally identical
  or if the wildcard \<open>Null\<close> is involved. \<open>TestResultColumnsTypesEqual\<close> expects false
  for \<open>r = [Null]\<close>, \<open>o = [Int]\<close> and true for \<open>r = [Int]\<close>, \<open>o = [Null]\<close>: the
  wildcard is the type of a column of the argument \<open>other\<close>. Of two different
  types neither of which is \<open>Null\<close>, the test has only the pair \<open>Int\<close> and \<open>String\<close>.
\<close>

fun types_match :: "ResultColumns \<Rightarrow> ResultColumns \<Rightarrow> bool" where
  "types_match (c # r) (oc # other) =
     (if Typ oc = TypeNull then types_match r other
      else if Typ c \<noteq> Typ oc then False
      else types_match r other)"
| "types_match r other = True"

definition TypesEqual :: "ResultColumns \<Rightarrow> ResultColumns \<Rightarrow> bool" where
  "TypesEqual r other = (if length r \<noteq> length other then False else types_match r other)"

text \<open>
  The same comparison as section 4.5 words it, with the wildcard on either side.
\<close>

fun types_match_spec :: "ResultColumns \<Rightarrow> ResultColumns \<Rightarrow> bool" where
  "types_match_spec (c # r) (oc # other) =
     (if Typ c = TypeNull \<or> Typ oc = TypeNull then types_match_spec r other
      else if Typ c \<noteq> Typ oc then False
      else types_match_spec r other)"
| "types_match_spec r other = True"

definition types_equal_spec :: "ResultColumns \<Rightarrow> ResultColumns \<Rightarrow> bool" where
  "types_equal_spec r other =
     (if length r \<noteq> length other then False else types_match_spec r other)"

text \<open>
  The table of \<open>TestResultColumnsTypesEqual\<close>: the two column lists and the expected
  result. The literal \<open>{Typ: t}\<close> leaves the other fields at their zero values.
\<close>

definition col :: "T \<Rightarrow> ResultColumn" where
  "col t = \<lparr>name = [], Typ = t, table_id = None, hidden = False\<rparr>"

definition tests :: "(ResultColumns \<times> ResultColumns \<times> bool) list" where
  "tests =
     [([col TypeInt], [col TypeInt], True),
      ([col TypeInt], [col TypeString], False),
      ([col TypeNull], [col TypeInt], False),
      ([col TypeInt], [col TypeNull], True),
      ([col TypeNull], [col TypeNull], True),
      ([col TypeInt, col TypeInt], [col TypeInt], False),
      ([], [col TypeNull], False)]"

text \<open>The test passes for \<open>f\<close> if no row calls \<open>t.Fatalf\<close>.\<close>

definition TestResultColumnsTypesEqual :: "(ResultColumns \<Rightarrow> ResultColumns \<Rightarrow> bool) \<Rightarrow> bool" where
  "TestResultColumnsTypesEqual f = list_all (\<lambda>(r, other, equal). f r other = equal) tests"

section \<open>The formatter's command line (pkg/cmd/sqlfmt/main.go)\<close>

record SqlfmtCtx =
  len :: go_int
  useSpaces :: bool
  tabWidth :: go_int
  noSimplify :: bool
  align :: bool
  formatPath :: string

text \<open>
  Modelled from the spec: the pretty-printer's configuration is declared in
  pkg/sql/sem/tree, which is not among the sources; these are the fields that
  \<open>runSQLFmt\<close> sets.
\<close>

datatype PrettyAlignMode = PrettyNoAlign | PrettyAlignAndDeindent | PrettyAlignOther

record PrettyCfg =
  UseTabs :: bool
  LineWidth :: go_int
  TabWidth :: go_int
  Simplify :: bool
  Align :: PrettyAlignMode
  JSONFmt :: bool

text \<open>
  The effects of \<open>runSQLFmt\<close>, in the order in which they happen: reading standard input
  to its end, a call of the parser on a text, and a write to standard output. The world is
  what the read returns and the effects so far.
\<close>

datatype event = ReadStdin | ParseCall string | Print string

record world =
  stdin :: "error + string"
  trace :: "event list"

definition emit :: "event \<Rightarrow> world \<Rightarrow> world" where
  "emit e w = w\<lparr>trace := trace w @ [e]\<rparr>"

text \<open>The loop over the statements; \<open>n\<close> is \<open>len(sl)\<close>.\<close>

fun print_stmts :: "(PrettyCfg \<Rightarrow> 'stmt \<Rightarrow> string) \<Rightarrow> PrettyCfg \<Rightarrow> nat \<Rightarrow> 'stmt list \<Rightarrow> world \<Rightarrow> world" where
  "print_stmts Pretty cfg n [] w = w"
| "print_stmts Pretty cfg n (st # sl) w =
     (let w = emit (Print (Pretty cfg st)) w;
          w = (if 1 < n then emit (Print '';'') w else w);
          w = emit (Print [CHR 0x0A]) w
      in print_stmts Pretty cfg n sl w)"

text \<open>
  \<open>Parse\<close> is \<open>parser.Parse\<close>, \<open>Pretty cfg st\<close> is \<open>cfg.Pretty(st.AST)\<close> and
  \<open>DefaultPrettyCfg\<close> is the value of \<open>tree.DefaultPrettyCfg()\<close>.
\<close>

definition runSQLFmt ::
  "(string \<Rightarrow> error + 'stmt list) \<Rightarrow> (PrettyCfg \<Rightarrow> 'stmt \<Rightarrow> string) \<Rightarrow> PrettyCfg
     \<Rightarrow> SqlfmtCtx \<Rightarrow> world \<Rightarrow> error option \<times> world" where
  "runSQLFmt Parse Pretty DefaultPrettyCfg sqlfmtCtx w =
     (if len sqlfmtCtx <s 1 then
        (Some (Errorf (''line length must be > 0: '' @ fmt_d (sint (len sqlfmtCtx)))), w)
      else if tabWidth sqlfmtCtx <s 1 then
        (Some (Errorf (''tab width must be > 0: '' @ fmt_d (sint (tabWidth sqlfmtCtx)))), w)
      else
        (let w = emit ReadStdin w in
         case stdin w of
           Inl err \<Rightarrow> (Some err, w)
         | Inr input \<Rightarrow>
             (let w = emit (ParseCall input) w in
              case Parse input of
                Inl err \<Rightarrow> (Some err, w)
              | Inr sl \<Rightarrow>
                  (let cfg = DefaultPrettyCfg
                         \<lparr>UseTabs := \<not> useSpaces sqlfmtCtx,
                          LineWidth := len sqlfmtCtx,
                          TabWidth := tabWidth sqlfmtCtx,
                          Simplify := \<not> noSimplify sqlfmtCtx,
                          Align := PrettyNoAlign,
                          JSONFmt := True\<rparr>;
                       cfg = (if align sqlfmtCtx then cfg\<lparr>Align := PrettyAlignAndDeindent\<rparr>
                              else cfg)
                   in (None, print_stmts Pretty cfg (length sl) sl w)))))"

section \<open>Auxiliary facts\<close>

subsection \<open>Conversions between the integer types\<close>

lemma sint_sub_no_wrap:
  fixes precision scale :: go_int
  assumes "0 \<le>s scale" and "scale \<le>s precision"
  shows "sint (precision - scale) = sint precision - sint scale"
proof -
  have b: "sint precision < 2 ^ 63" using sint_lt [of precision] by simp
  have s: "0 \<le> sint scale" using assms(1) by (simp add: word_sle_eq)
  have l: "sint scale \<le> sint precision" using assms(2) by (simp add: word_sle_eq)
  have "sint (precision - scale) = signed_take_bit 63 (sint precision - sint scale)"
    by (simp add: sint_word_ariths)
  also have "\<dots> = sint precision - sint scale"
    using b s l by (intro signed_take_bit_int_eq_self) auto
  finally show ?thesis .
qed

lemma uint_eq_sint_nonneg:
  fixes x :: go_int
  assumes "0 \<le>s x"
  shows "uint x = sint x"
proof -
  have nn: "0 \<le> sint x" using assms by (simp add: word_sle_eq)
  have "sint x < 2 ^ 63" using sint_lt [of x] by simp
  then have lt: "sint x < 2 ^ 64" by simp
  have "uint x = take_bit 64 (sint x)" using uint_sint [of x] by simp
  also have "\<dots> = sint x" using nn lt by (rule take_bit_int_eq_self)
  finally show ?thesis .
qed

lemma sint_neg_int32:
  fixes scale :: go_int
  assumes "0 \<le>s scale" and "scale \<le>s 2147483647"
  shows "sint (- (ucast scale :: 32 word)) = - sint scale"
proof -
  have nn: "0 \<le> sint scale" using assms(1) by (simp add: word_sle_eq)
  have hi: "sint scale \<le> 2147483647" using assms(2) by (simp add: word_sle_eq)
  have "sint (ucast scale :: 32 word) = signed_take_bit 31 (uint scale)"
    using signed_ucast_eq [of scale, where 'a = int and 'c = 32] by simp
  also have "\<dots> = signed_take_bit 31 (sint scale)"
    using assms(1) by (simp add: uint_eq_sint_nonneg)
  also have "\<dots> = sint scale"
    using nn hi by (intro signed_take_bit_int_eq_self) simp_all
  finally have c: "sint (ucast scale :: 32 word) = sint scale" .
  have "sint (- (ucast scale :: 32 word)) = signed_take_bit 31 (- sint (ucast scale :: 32 word))"
    by (simp add: sint_word_ariths)
  also have "\<dots> = signed_take_bit 31 (- sint scale)" by (simp only: c)
  also have "\<dots> = - sint scale"
    using nn hi by (intro signed_take_bit_int_eq_self) simp_all
  finally show ?thesis .
qed

lemma unat_uint32_le:
  fixes precision :: go_int
  assumes "0 <s precision"
  shows "unat (ucast precision :: 32 word) \<le> nat (sint precision)"
proof -
  have "0 \<le>s precision" using assms by (simp add: word_sle_eq word_sless_alt)
  then have u: "uint precision = sint precision" by (rule uint_eq_sint_nonneg)
  have "unat (ucast precision :: 32 word) = take_bit 32 (unat precision)"
    using unsigned_ucast_eq [of precision, where 'a = nat and 'c = 32] by simp
  also have "\<dots> \<le> unat precision" by (rule take_bit_nat_less_eq_self)
  also have "\<dots> = nat (sint precision)" using u by (simp add: unat_eq_nat_uint)
  finally show ?thesis .
qed

subsection \<open>The library's quantize on a coefficient that is too long\<close>

lemma NumDigits_gt: "10 ^ p \<le> n \<Longrightarrow> p < NumDigits n"
proof (induction p arbitrary: n)
  case 0
  show ?case by (subst NumDigits.simps) simp
next
  case (Suc p)
  have big: "10 \<le> n"
  proof -
    have "(1::nat) \<le> 10 ^ p" by simp
    moreover from Suc.prems have "10 * 10 ^ p \<le> n" by simp
    ultimately show ?thesis by linarith
  qed
  from Suc.prems have "10 ^ p \<le> n div 10"
    by (simp add: less_eq_div_iff_mult_less_eq mult.commute)
  then have "p < NumDigits (n div 10)" by (rule Suc.IH)
  then show ?case using big by (subst NumDigits.simps) simp
qed

lemma Quantize_overflow:
  assumes "Form x = Finite"
    and "10 ^ unat (Precision c) \<le> rescale (Rounding c) (Coeff x) (sint (Exponent x)) (sint exp)"
  shows "Quantize c x exp = invalid c x"
proof -
  have "unat (Precision c) < NumDigits (rescale (Rounding c) (Coeff x) (sint (Exponent x)) (sint exp))"
    using assms(2) by (rule NumDigits_gt)
  then show ?thesis using assms(1) by (simp add: Quantize_def Let_def)
qed

lemma Quantize_trapped_overflow:
  fixes precision scale :: go_int
  assumes "Form d = Finite" and "0 <s precision"
    and "0 \<le>s scale" and "scale \<le>s 2147483647"
    and "10 ^ nat (sint precision)
           \<le> rescale (Rounding DecimalCtx) (Coeff d) (sint (Exponent d)) (- sint scale)"
  shows "Quantize ((WithPrecision DecimalCtx (ucast precision))\<lparr>Traps := {InvalidOperation}\<rparr>) d
           (- ucast scale)
         = (d\<lparr>Form := NaN\<rparr>, {InvalidOperation}, Some (Errorf ''invalid operation''))"
proof -
  let ?c = "(WithPrecision DecimalCtx (ucast precision))\<lparr>Traps := {InvalidOperation}\<rparr>"
  have e: "sint (- (ucast scale :: 32 word)) = - sint scale"
    using assms(3,4) by (rule sint_neg_int32)
  have "(10::nat) ^ unat (Precision ?c) \<le> 10 ^ nat (sint precision)"
    using unat_uint32_le [OF assms(2)] by (simp add: WithPrecision_def power_increasing)
  also have "\<dots> \<le> rescale (Rounding ?c) (Coeff d) (sint (Exponent d))
                     (sint (- (ucast scale :: 32 word)))"
    using assms(5) by (simp add: e WithPrecision_def)
  finally have "Quantize ?c d (- ucast scale) = invalid ?c d"
    using assms(1) by (intro Quantize_overflow)
  then show ?thesis by (simp add: invalid_def)
qed

text \<open>
  Whatever the library's quantize is: when it returns an error on valid parameters,
  \<open>LimitDecimalWidth\<close> returns the out-of-range error with the bound in its message.
\<close>

lemma LimitDecimalWidth_quantize_error:
  assumes "Form d = Finite" and "0 <s precision"
    and "0 \<le>s scale" and "scale \<le>s 2147483647" and "scale \<le>s precision"
    and "quantize ((WithPrecision DecimalCtx (ucast precision))\<lparr>Traps := {InvalidOperation}\<rparr>) d
           (- ucast scale) = (d', res, Some err)"
  shows "LimitDecimalWidth DecimalCtx quantize d precision scale =
           (d', Some (PgError CodeNumericValueOutOfRangeError
                  (''value with precision '' @ fmt_d (sint precision) @ '', scale ''
                     @ fmt_d (sint scale) @ '' must round to an absolute value less than ''
                     @ (if sint precision - sint scale = 0 then ''1''
                        else ''10^'' @ fmt_d (sint precision - sint scale)))))"
proof -
  have p: "\<not> precision \<le>s 0" using assms(2) by (simp add: word_sle_eq word_sless_alt)
  have lo: "\<not> scale <s - 2147483648 + 1" using assms(3) by (simp add: word_sle_eq word_sless_alt)
  have hi: "\<not> 2147483647 <s scale" using assms(4) by (simp add: word_sle_eq word_sless_alt)
  have sp: "\<not> precision <s scale" using assms(5) by (simp add: word_sle_eq word_sless_alt)
  have v: "sint (precision - scale) = sint precision - sint scale"
    using assms(3,5) by (rule sint_sub_no_wrap)
  have z: "(precision = scale) = (sint precision = sint scale)"
    by (rule word_eq_iff_signed)
  show ?thesis
    unfolding LimitDecimalWidth_def using assms(1) p lo hi sp assms(6)
    by (simp add: Let_def v z)
qed

subsection \<open>The package's OID column types\<close>

text \<open>The six package variables are the contents of the heap after initialisation.\<close>

lemma package_heap_variables:
  "map (\<lambda>c. (ptr c, Name c))
     [oidColTypeOid, oidColTypeRegClass, oidColTypeRegNamespace, oidColTypeRegProc,
      oidColTypeRegProcedure, oidColTypeRegType]
   = zip [0 ..< length package_heap] package_heap"
  by (simp add: package_heap_def oidColTypeOid_def oidColTypeRegClass_def
      oidColTypeRegNamespace_def oidColTypeRegProc_def oidColTypeRegProcedure_def
      oidColTypeRegType_def upt_rec)

subsection \<open>The test of the result columns\<close>

lemma TypesEqual_passes_test: "TestResultColumnsTypesEqual TypesEqual"
  by (simp add: TestResultColumnsTypesEqual_def tests_def TypesEqual_def col_def)

text \<open>The comparison with the wildcard on either side fails the third row of the test.\<close>

lemma types_equal_spec_fails_test: "\<not> TestResultColumnsTypesEqual types_equal_spec"
  by (simp add: TestResultColumnsTypesEqual_def tests_def types_equal_spec_def col_def)

subsection \<open>The effects of the formatter's command line\<close>

lemma print_stmts_extends:
  "\<exists>es. trace (print_stmts Pretty cfg n sl w) = trace w @ es"
proof (induction sl arbitrary: w)
  case Nil
  show ?case by simp
next
  case (Cons st sl)
  let ?w = "emit (Print [CHR 0x0A])
              ((if 1 < n then emit (Print '';'') else id) (emit (Print (Pretty cfg st)) w))"
  from Cons.IH [of ?w] obtain es where
    es: "trace (print_stmts Pretty cfg n sl ?w) = trace ?w @ es" by blast
  have "\<exists>fs. trace ?w = trace w @ fs" by (simp add: emit_def)
  then obtain fs where fs: "trace ?w = trace w @ fs" by blast
  have "print_stmts Pretty cfg n (st # sl) w = print_stmts Pretty cfg n sl ?w"
    by (simp add: Let_def)
  with es fs show ?case by simp
qed

text \<open>With valid widths the first effect is the read of standard input.\<close>

lemma runSQLFmt_valid_width_reads:
  assumes "\<not> len sqlfmtCtx <s 1" and "\<not> tabWidth sqlfmtCtx <s 1"
  shows "\<exists>es. trace (snd (runSQLFmt Parse Pretty DefaultPrettyCfg sqlfmtCtx w))
               = trace w @ ReadStdin # es"
proof -
  have ext: "\<exists>es. trace (print_stmts Pretty cfg n sl (emit e (emit ReadStdin w)))
                   = trace w @ ReadStdin # es" for cfg n sl e
  proof -
    from print_stmts_extends [of Pretty cfg n sl "emit e (emit ReadStdin w)"]
    obtain es where "trace (print_stmts Pretty cfg n sl (emit e (emit ReadStdin w)))
                       = trace (emit e (emit ReadStdin w)) @ es" by blast
    then show ?thesis by (simp add: emit_def)
  qed
  show ?thesis
    using assms ext
    by (auto simp: runSQLFmt_def Let_def split: sum.splits) (simp_all add: emit_def)
qed

section \<open>The claims\<close>

subsection \<open>C1: the wildcard of the result-column comparison\<close>

text \<open>
  C1, as the code has it. The comparison is not symmetric in the \<open>Null\<close> wildcard: a
  single column of any value type equals a single \<open>Null\<close> column of the argument, so
  \<open>TypesEqual([Int], [Null])\<close> is true, and \<open>TypesEqual([Null], [Int])\<close> is false.
\<close>

theorem TypesEqual_wildcard_argument_side:
  "TypesEqual [c] [col TypeNull]
   \<and> TypesEqual [col TypeInt] [col TypeNull]
   \<and> \<not> TypesEqual [col TypeNull] [col TypeInt]"
  by (simp add: TypesEqual_def col_def)

theorem TypesEqual_wildcard_argument_side_witness:
  "TypesEqual [col (TArray TypeString)] [col TypeNull]"
  using TypesEqual_wildcard_argument_side [of "col (TArray TypeString)"]
  by simp

text \<open>
  The claim as stated has \<open>TypesEqual([Null], [Int])\<close> true; the third row of the test
  expects false, and so it is.
\<close>

theorem TypesEqual_null_left_counterexample:
  "TypesEqual [col TypeNull] [col TypeInt] = False"
  by (simp add: TypesEqual_def col_def)

subsection \<open>C2: from a primitive value type to its column type and back\<close>

text \<open>
  C2. For each of the fourteen primitive value types \<open>v\<close>, \<open>DatumTypeToColumnType v\<close>
  succeeds with a column type \<open>c\<close>, and \<open>CastTargetToDatumType c\<close> returns \<open>v\<close>.
\<close>

theorem DatumTypeToColumnType_roundtrip:
  assumes "v \<in> {TypeBool, TypeInt, TypeFloat, TypeDecimal, TypeString, TypeBytes, TypeDate,
                 TypeTimestamp, TypeTimestampTZ, TypeInterval, TypeJSON, TypeUUID, TypeINet,
                 TypeName}"
  shows "\<exists>c. DatumTypeToColumnType enc fs tstr v = Inr c
             \<and> CastTargetToDatumType c = Inr v"
  using assms
  by (auto simp: boolColTypeBool_def intColTypeInt_def floatColTypeFloat_def
      decimalColTypeDecimal_def timestampColTypeTimestamp_def
      timestampTzColTypeTimestampWithTZ_def intervalColTypeInterval_def jsonColType_def
      uuidColTypeUUID_def ipnetColTypeINet_def dateColTypeDate_def stringColTypeString_def
      nameColTypeName_def bytesColTypeBytes_def)

theorem DatumTypeToColumnType_roundtrip_witness:
  "DatumTypeToColumnType (\<lambda>s (f :: unit). s) () (\<lambda>t. []) TypeINet
     = Inr (IPAddrColType ''INET'')
   \<and> CastTargetToDatumType (IPAddrColType ''INET'') = Inr TypeINet"
  using DatumTypeToColumnType_roundtrip
          [of TypeINet "\<lambda>s (f :: unit). s" "()" "\<lambda>t. []"]
  by (simp add: ipnetColTypeINet_def)

subsection \<open>C3: a value that does not fit the precision\<close>

text \<open>
  C3. Let \<open>d\<close> be finite, \<open>0 < precision\<close> and \<open>0 \<le> scale \<le> precision\<close>, with the
  scale in the range of \<open>int32\<close>. Whenever the quantize of the library returns an error,
  \<open>LimitDecimalWidth\<close> fails with the code \<open>NumericValueOutOfRange\<close> and a message that
  cites the exclusive bound: \<open>1\<close> when \<open>precision - scale\<close> is 0, and
  \<open>10^(precision - scale)\<close> otherwise. With the library's quantize as section 4.3 words it,
  that is the case whenever the coefficient of \<open>d\<close> at \<open>scale\<close> fractional digits has
  more than \<open>precision\<close> digits, that is more than \<open>precision - scale\<close> integer digits.
\<close>

theorem LimitDecimalWidth_out_of_range:
  assumes "Form d = Finite" and "0 <s precision"
    and "0 \<le>s scale" and "scale \<le>s 2147483647" and "scale \<le>s precision"
  shows "(quantize ((WithPrecision DecimalCtx (ucast precision))\<lparr>Traps := {InvalidOperation}\<rparr>) d
            (- ucast scale) = (d', res, Some err)
          \<longrightarrow> LimitDecimalWidth DecimalCtx quantize d precision scale =
               (d', Some (PgError CodeNumericValueOutOfRangeError
                  (''value with precision '' @ fmt_d (sint precision) @ '', scale ''
                     @ fmt_d (sint scale) @ '' must round to an absolute value less than ''
                     @ (if sint precision - sint scale = 0 then ''1''
                        else ''10^'' @ fmt_d (sint precision - sint scale))))))
       \<and> (10 ^ nat (sint precision)
            \<le> rescale (Rounding DecimalCtx) (Coeff d) (sint (Exponent d)) (- sint scale)
          \<longrightarrow> snd (LimitDecimalWidth DecimalCtx Quantize d precision scale) =
               Some (PgError CodeNumericValueOutOfRangeError
                  (''value with precision '' @ fmt_d (sint precision) @ '', scale ''
                     @ fmt_d (sint scale) @ '' must round to an absolute value less than ''
                     @ (if sint precision - sint scale = 0 then ''1''
                        else ''10^'' @ fmt_d (sint precision - sint scale)))))"
proof (intro conjI impI)
  assume "quantize ((WithPrecision DecimalCtx (ucast precision))\<lparr>Traps := {InvalidOperation}\<rparr>) d
            (- ucast scale) = (d', res, Some err)"
  with assms show "LimitDecimalWidth DecimalCtx quantize d precision scale =
               (d', Some (PgError CodeNumericValueOutOfRangeError
                  (''value with precision '' @ fmt_d (sint precision) @ '', scale ''
                     @ fmt_d (sint scale) @ '' must round to an absolute value less than ''
                     @ (if sint precision - sint scale = 0 then ''1''
                        else ''10^'' @ fmt_d (sint precision - sint scale)))))"
    by (rule LimitDecimalWidth_quantize_error)
next
  assume "10 ^ nat (sint precision)
            \<le> rescale (Rounding DecimalCtx) (Coeff d) (sint (Exponent d)) (- sint scale)"
  with assms(1-4)
  have "Quantize ((WithPrecision DecimalCtx (ucast precision))\<lparr>Traps := {InvalidOperation}\<rparr>) d
          (- ucast scale)
        = (d\<lparr>Form := NaN\<rparr>, {InvalidOperation}, Some (Errorf ''invalid operation''))"
    by (rule Quantize_trapped_overflow)
  with assms have "LimitDecimalWidth DecimalCtx Quantize d precision scale =
               (d\<lparr>Form := NaN\<rparr>, Some (PgError CodeNumericValueOutOfRangeError
                  (''value with precision '' @ fmt_d (sint precision) @ '', scale ''
                     @ fmt_d (sint scale) @ '' must round to an absolute value less than ''
                     @ (if sint precision - sint scale = 0 then ''1''
                        else ''10^'' @ fmt_d (sint precision - sint scale)))))"
    by (rule LimitDecimalWidth_quantize_error)
  then show "snd (LimitDecimalWidth DecimalCtx Quantize d precision scale) =
               Some (PgError CodeNumericValueOutOfRangeError
                  (''value with precision '' @ fmt_d (sint precision) @ '', scale ''
                     @ fmt_d (sint scale) @ '' must round to an absolute value less than ''
                     @ (if sint precision - sint scale = 0 then ''1''
                        else ''10^'' @ fmt_d (sint precision - sint scale))))"
    by simp
qed

text \<open>The value 12345 with precision 3 and scale 0: the message cites \<open>10^3\<close>.\<close>

theorem LimitDecimalWidth_out_of_range_witness:
  "snd (LimitDecimalWidth
     \<lparr>Precision = 20, MaxExponent = 2000, MinExponent = - 2000, Traps = {},
      Rounding = RoundHalfUp\<rparr>
     Quantize \<lparr>Form = Finite, Negative = False, Exponent = 0, Coeff = 12345\<rparr> 3 0)
   = Some (PgError CodeNumericValueOutOfRangeError
        ''value with precision 3, scale 0 must round to an absolute value less than 10^3'')"
proof -
  let ?ctx = "\<lparr>Precision = 20, MaxExponent = 2000, MinExponent = - 2000, Traps = {},
               Rounding = RoundHalfUp\<rparr>"
  let ?d = "\<lparr>Form = Finite, Negative = False, Exponent = 0, Coeff = 12345\<rparr>"
  have f: "Form ?d = Finite" by simp
  have "0 <s (3 :: go_int)" "0 \<le>s (0 :: go_int)" "(0 :: go_int) \<le>s 2147483647"
    "(0 :: go_int) \<le>s 3"
    by (simp_all add: word_sless_alt word_sle_eq)
  from LimitDecimalWidth_out_of_range
         [where quantize = Quantize and DecimalCtx = ?ctx and d = ?d and precision = 3
            and scale = 0, OF f this]
  show ?thesis by (simp add: rescale_def fmt_d_def digits10.simps)
qed

subsection \<open>C4: OID column types are told apart by address\<close>

text \<open>
  C4, as the code has it. \<open>CastTargetToDatumType\<close> on an \<open>OidColType\<close> goes by the
  identity of the pointer: each of the six package variables gives its OID value type, the
  call returns a type exactly when the pointer is one of those six, and a value allocated
  afterwards reaches the panic whatever its name, one of the six names included.
\<close>

theorem CastTargetToDatumType_oid_by_identity:
  "CastTargetToDatumType oidColTypeOid = Inr TypeOid
   \<and> CastTargetToDatumType oidColTypeRegClass = Inr TypeRegClass
   \<and> CastTargetToDatumType oidColTypeRegNamespace = Inr TypeRegNamespace
   \<and> CastTargetToDatumType oidColTypeRegProc = Inr TypeRegProc
   \<and> CastTargetToDatumType oidColTypeRegProcedure = Inr TypeRegProcedure
   \<and> CastTargetToDatumType oidColTypeRegType = Inr TypeRegType
   \<and> (\<exists>t. CastTargetToDatumType (OidColType p n) = Inr t)
       = (p \<in> {ptr oidColTypeOid, ptr oidColTypeRegClass, ptr oidColTypeRegNamespace,
               ptr oidColTypeRegProc, ptr oidColTypeRegProcedure, ptr oidColTypeRegType})
   \<and> CastTargetToDatumType (fst (new_OidColType (package_heap @ h) n))
       = Inl (Panic (''unexpected *OidColType: '' @ n))"
  by (simp add: oidColTypeToType_def oidColTypeOid_def oidColTypeRegClass_def
      oidColTypeRegNamespace_def oidColTypeRegProc_def oidColTypeRegProcedure_def
      oidColTypeRegType_def new_OidColType_def package_heap_def)

theorem CastTargetToDatumType_oid_by_identity_witness:
  "CastTargetToDatumType (fst (new_OidColType (package_heap @ [''REGCLASS'']) ''REGTYPE''))
     = Inl (Panic ''unexpected *OidColType: REGTYPE'')"
  using CastTargetToDatumType_oid_by_identity [of 6 "''REGTYPE''" "[''REGCLASS'']"]
  by simp

text \<open>
  The claim as stated has every \<open>OidColType\<close> with one of the six names mapped to its
  type: \<open>&OidColType{Name: "OID"}\<close> has the name of \<open>oidColTypeOid\<close> and panics.
\<close>

theorem CastTargetToDatumType_fresh_oid_counterexample:
  "Name (fst (new_OidColType package_heap ''OID'')) = Name oidColTypeOid
   \<and> CastTargetToDatumType (fst (new_OidColType package_heap ''OID''))
       = Inl (Panic ''unexpected *OidColType: OID'')"
  by (simp add: new_OidColType_def package_heap_def oidColTypeToType_def oidColTypeOid_def
      oidColTypeRegClass_def oidColTypeRegNamespace_def oidColTypeRegProc_def
      oidColTypeRegProcedure_def oidColTypeRegType_def)

subsection \<open>C5: a scale outside the exponent range\<close>

text \<open>
  C5, as the code has it. For a finite \<open>d\<close> and \<open>0 < precision\<close>, a scale below
  \<open>MinInt32 + 1\<close> or above \<open>MaxInt32\<close> makes \<open>LimitDecimalWidth\<close> fail with
  \<open>errScaleOutOfRange\<close>, whose code is \<open>NumericValueOutOfRange\<close>, the code of the
  out-of-range error, and whose message is \<open>scale out of range\<close>; \<open>d\<close> is unchanged.
  The check comes before the comparison of scale and precision: the result is the same
  whether or not the scale exceeds the precision.
\<close>

theorem LimitDecimalWidth_scale_out_of_range:
  assumes "Form d = Finite" and "0 <s precision"
    and "scale <s - 2147483647 \<or> 2147483647 <s scale"
  shows "LimitDecimalWidth DecimalCtx quantize d precision scale =
           (d, Some (PgError CodeNumericValueOutOfRangeError ''scale out of range''))"
proof -
  have p: "\<not> precision \<le>s 0" using assms(2) by (simp add: word_sle_eq word_sless_alt)
  show ?thesis
    unfolding LimitDecimalWidth_def errScaleOutOfRange_def using assms(1,3) p by auto
qed

text \<open>A scale of \<open>MaxInt32 + 1\<close>, which also exceeds the precision 1.\<close>

theorem LimitDecimalWidth_scale_out_of_range_witness:
  "LimitDecimalWidth
     \<lparr>Precision = 20, MaxExponent = 2000, MinExponent = - 2000, Traps = {},
      Rounding = RoundHalfUp\<rparr>
     Quantize \<lparr>Form = Finite, Negative = False, Exponent = - 2, Coeff = 314\<rparr> 1 2147483648
   = (\<lparr>Form = Finite, Negative = False, Exponent = - 2, Coeff = 314\<rparr>,
      Some (PgError CodeNumericValueOutOfRangeError ''scale out of range''))"
proof -
  let ?ctx = "\<lparr>Precision = 20, MaxExponent = 2000, MinExponent = - 2000, Traps = {},
               Rounding = RoundHalfUp\<rparr>"
  let ?d = "\<lparr>Form = Finite, Negative = False, Exponent = - 2, Coeff = 314\<rparr>"
  have f: "Form ?d = Finite" by simp
  have "0 <s (1 :: go_int)"
    "(2147483648 :: go_int) <s - 2147483647 \<or> 2147483647 <s (2147483648 :: go_int)"
    by (simp_all add: word_sless_alt)
  from LimitDecimalWidth_scale_out_of_range
         [where quantize = Quantize and DecimalCtx = ?ctx and d = ?d, OF f this]
  show ?thesis .
qed

text \<open>
  The claim as stated has the error of a kind other than \<open>NumericValueOutOfRange\<close>: at
  the scale \<open>MinInt32\<close> the code of the error is \<open>NumericValueOutOfRange\<close>.
\<close>

theorem LimitDecimalWidth_scale_kind_counterexample:
  "snd (LimitDecimalWidth
     \<lparr>Precision = 20, MaxExponent = 2000, MinExponent = - 2000, Traps = {},
      Rounding = RoundHalfUp\<rparr>
     Quantize \<lparr>Form = Finite, Negative = False, Exponent = 0, Coeff = 7\<rparr> 10 (- 2147483648))
   = Some (PgError CodeNumericValueOutOfRangeError ''scale out of range'')"
  by (simp add: LimitDecimalWidth_def errScaleOutOfRange_def word_sless_alt word_sle_eq)

subsection \<open>C6: a scale greater than the precision\<close>

text \<open>
  C6. For a finite \<open>d\<close>, \<open>0 < precision\<close> and a scale in the range of \<open>int32\<close> that is
  greater than the precision, \<open>LimitDecimalWidth\<close> fails with the code
  \<open>InvalidParameterValue\<close> and leaves \<open>d\<close> as it was.
\<close>

theorem LimitDecimalWidth_scale_exceeds_precision:
  assumes "Form d = Finite" and "0 <s precision"
    and "- 2147483647 \<le>s scale" and "scale \<le>s 2147483647"
    and "precision <s scale"
  shows "LimitDecimalWidth DecimalCtx quantize d precision scale =
           (d, Some (PgError CodeInvalidParameterValueError
                  (''scale ('' @ fmt_d (sint scale) @ '') must be between 0 and precision (''
                     @ fmt_d (sint precision) @ '')'')))"
proof -
  have p: "\<not> precision \<le>s 0" using assms(2) by (simp add: word_sle_eq word_sless_alt)
  have lo: "\<not> scale <s - 2147483648 + 1" using assms(3) by (simp add: word_sle_eq word_sless_alt)
  have hi: "\<not> 2147483647 <s scale" using assms(4) by (simp add: word_sle_eq word_sless_alt)
  show ?thesis
    unfolding LimitDecimalWidth_def using assms(1,5) p lo hi by simp
qed

text \<open>Precision 5 and scale 10.\<close>

theorem LimitDecimalWidth_scale_exceeds_precision_witness:
  "LimitDecimalWidth
     \<lparr>Precision = 20, MaxExponent = 2000, MinExponent = - 2000, Traps = {},
      Rounding = RoundHalfUp\<rparr>
     Quantize \<lparr>Form = Finite, Negative = True, Exponent = - 3, Coeff = 1005\<rparr> 5 10
   = (\<lparr>Form = Finite, Negative = True, Exponent = - 3, Coeff = 1005\<rparr>,
      Some (PgError CodeInvalidParameterValueError
              ''scale (10) must be between 0 and precision (5)''))"
proof -
  let ?ctx = "\<lparr>Precision = 20, MaxExponent = 2000, MinExponent = - 2000, Traps = {},
               Rounding = RoundHalfUp\<rparr>"
  let ?d = "\<lparr>Form = Finite, Negative = True, Exponent = - 3, Coeff = 1005\<rparr>"
  have f: "Form ?d = Finite" by simp
  have "0 <s (5 :: go_int)" "- 2147483647 \<le>s (10 :: go_int)" "(10 :: go_int) \<le>s 2147483647"
    "(5 :: go_int) <s 10"
    by (simp_all add: word_sless_alt word_sle_eq)
  from LimitDecimalWidth_scale_exceeds_precision
         [where quantize = Quantize and DecimalCtx = ?ctx and d = ?d, OF f this]
  show ?thesis by (simp add: fmt_d_def digits10.simps)
qed

subsection \<open>C7: arrays and their element types\<close>

text \<open>
  C7. \<open>arrayOf\<close> fails, with the code \<open>FeatureNotSupported\<close>, exactly when the element
  type is not array-eligible, and otherwise builds the array whose name is the element
  type's text followed by \<open>[]\<close>. No \<open>Array\<close> and no \<open>Vector\<close> is array-eligible,
  whatever its fields, so \<open>arrayOf\<close> fails on each of them. \<open>arrayOf\<close> of \<open>INT\<close>
  succeeds and the array renders as \<open>INT[]\<close>.
\<close>

theorem arrayOf_eligibility:
  "arrayOf enc fs colType boundsExprs =
     (if canBeInArrayColType colType
      then Inr (ArrayColType (AsString enc fs colType @ ''[]'') colType boundsExprs)
      else Inl (PgError CodeFeatureNotSupportedError
                  (''arrays of '' @ AsString enc fs colType @ '' not allowed'')))
   \<and> \<not> canBeInArrayColType (ArrayColType nm paramType bounds)
   \<and> \<not> canBeInArrayColType (VectorColType nm paramType)
   \<and> arrayOf enc fs (ArrayColType nm paramType bounds) boundsExprs
       = Inl (PgError CodeFeatureNotSupportedError
                (''arrays of '' @ AsString enc fs (ArrayColType nm paramType bounds)
                   @ '' not allowed''))
   \<and> arrayOf enc fs (VectorColType nm paramType) boundsExprs
       = Inl (PgError CodeFeatureNotSupportedError (''arrays of '' @ nm @ '' not allowed''))
   \<and> arrayOf enc fs intColTypeInt boundsExprs
       = Inr (ArrayColType ''INT[]'' intColTypeInt boundsExprs)
   \<and> Format enc (ArrayColType ''INT[]'' intColTypeInt boundsExprs) [] f = ''INT[]''"
  by (simp add: arrayOf_def AsString_def intColTypeInt_def word_sless_alt)

text \<open>
  An array of \<open>INT\<close>, an array of that array, and an array of the vector
  \<open>INT2VECTOR\<close>.
\<close>

theorem arrayOf_eligibility_witness:
  "arrayOf (\<lambda>s (f :: unit). s) () intColTypeInt []
     = Inr (ArrayColType ''INT[]'' intColTypeInt [])
   \<and> Format (\<lambda>s (f :: unit). s) (ArrayColType ''INT[]'' intColTypeInt []) [] () = ''INT[]''
   \<and> arrayOf (\<lambda>s (f :: unit). s) () (ArrayColType ''INT[]'' intColTypeInt []) []
     = Inl (PgError CodeFeatureNotSupportedError ''arrays of INT[] not allowed'')
   \<and> arrayOf (\<lambda>s (f :: unit). s) () int2vectorColType []
     = Inl (PgError CodeFeatureNotSupportedError ''arrays of INT2VECTOR not allowed'')"
  using
    arrayOf_eligibility [where enc = "\<lambda>s (f :: unit). s" and fs = "()" and f = "()"
      and colType = intColTypeInt and boundsExprs = "[]" and nm = "''INT[]''"
      and paramType = intColTypeInt and bounds = "[]"]
    arrayOf_eligibility [where enc = "\<lambda>s (f :: unit). s" and fs = "()" and f = "()"
      and colType = intColTypeInt and boundsExprs = "[]" and nm = "''INT2VECTOR''"
      and paramType = intColTypeInt]
  by (simp add: AsString_def int2vectorColType_def intColTypeInt_def)

subsection \<open>C8: the parameter in the text of a type\<close>

text \<open>
  C8, as the code has it. \<open>Format\<close> of an \<open>IntColType\<close> writes the name, and the width
  in parentheses exactly when the width is positive and not implicit: \<open>BIT\<close> with the
  explicit width 5 gives \<open>BIT(5)\<close>, \<open>SMALLINT\<close> with the implicit width 16 gives
  \<open>SMALLINT\<close>. \<open>Format\<close> of a \<open>FloatColType\<close> writes the name, and the precision in
  parentheses exactly when the precision is positive, whatever \<open>PrecSpecified\<close> is.
\<close>

theorem Format_parameter:
  "Format enc (IntColType nm width implicitWidth) buf f =
     (if 0 <s width \<and> \<not> implicitWidth then buf @ nm @ ''('' @ fmt_d (sint width) @ '')''
      else buf @ nm)
   \<and> Format enc (FloatColType nm prec fwidth precSpecified) buf f =
     (if 0 <s prec then buf @ nm @ ''('' @ fmt_d (sint prec) @ '')'' else buf @ nm)
   \<and> Format enc (IntColType ''BIT'' 5 False) [] f = ''BIT(5)''
   \<and> Format enc (IntColType ''SMALLINT'' 16 True) [] f = ''SMALLINT''"
  by (simp add: Let_def fmt_d_def digits10.simps word_sless_alt)

theorem Format_parameter_witness:
  "Format (\<lambda>s (f :: unit). s) (IntColType ''BIT'' 12 False) ''x '' () = ''x BIT(12)''
   \<and> Format (\<lambda>s (f :: unit). s) (IntColType ''INT'' 0 False) [] () = ''INT''
   \<and> Format (\<lambda>s (f :: unit). s) (FloatColType ''FLOAT'' 0 64 True) [] () = ''FLOAT''
   \<and> Format (\<lambda>s (f :: unit). s) (FloatColType ''FLOAT'' 24 64 True) [] () = ''FLOAT(24)''"
  using
    Format_parameter [where enc = "\<lambda>s (f :: unit). s" and nm = "''BIT''" and width = 12
      and implicitWidth = False and buf = "''x ''" and f = "()"]
    Format_parameter [where enc = "\<lambda>s (f :: unit). s" and nm = "''INT''" and width = 0
      and implicitWidth = False and buf = "[]" and f = "()"]
    Format_parameter [where enc = "\<lambda>s (f :: unit). s" and nm = "''FLOAT''" and prec = 0
      and fwidth = 64 and precSpecified = True and buf = "[]" and f = "()"]
    Format_parameter [where enc = "\<lambda>s (f :: unit). s" and nm = "''FLOAT''" and prec = 24
      and fwidth = 64 and precSpecified = True and buf = "[]" and f = "()"]
  by (simp add: fmt_d_def digits10.simps word_sless_alt)

text \<open>
  The claim as stated has the precision of a \<open>FloatColType\<close> written only when it was
  specified: \<open>NewFloatColType(5, false)\<close> is not marked as specified and renders as
  \<open>FLOAT(5)\<close>.
\<close>

theorem Format_float_unspecified_counterexample:
  "\<not> PrecSpecified (NewFloatColType 5 False)
   \<and> Format (\<lambda>s (f :: unit). s) (NewFloatColType 5 False) [] () = ''FLOAT(5)''"
  by (simp add: NewFloatColType_def Let_def fmt_d_def digits10.simps word_sless_alt)

subsection \<open>C9: values and precisions that are left alone\<close>

text \<open>
  C9. If \<open>d\<close> is not finite, or the precision is zero or negative, \<open>LimitDecimalWidth\<close>
  returns no error and leaves \<open>d\<close> as it was, for every scale: the scale is not looked at.
\<close>

theorem LimitDecimalWidth_noop:
  assumes "Form d \<noteq> Finite \<or> precision \<le>s 0"
  shows "LimitDecimalWidth DecimalCtx quantize d precision scale = (d, None)"
  using assms by (auto simp: LimitDecimalWidth_def)

text \<open>
  A NaN and an infinity with a scale of \<open>2^40\<close>, out of range and above the precision, and
  a finite value with the precisions 0 and -1.
\<close>

theorem LimitDecimalWidth_noop_witness:
  "LimitDecimalWidth
     \<lparr>Precision = 20, MaxExponent = 2000, MinExponent = - 2000, Traps = {},
      Rounding = RoundHalfUp\<rparr>
     Quantize \<lparr>Form = NaN, Negative = False, Exponent = 0, Coeff = 0\<rparr> 5 1099511627776
   = (\<lparr>Form = NaN, Negative = False, Exponent = 0, Coeff = 0\<rparr>, None)
   \<and> LimitDecimalWidth
     \<lparr>Precision = 20, MaxExponent = 2000, MinExponent = - 2000, Traps = {},
      Rounding = RoundHalfUp\<rparr>
     Quantize \<lparr>Form = Infinite, Negative = True, Exponent = 0, Coeff = 0\<rparr> 5 1099511627776
   = (\<lparr>Form = Infinite, Negative = True, Exponent = 0, Coeff = 0\<rparr>, None)
   \<and> LimitDecimalWidth
     \<lparr>Precision = 20, MaxExponent = 2000, MinExponent = - 2000, Traps = {},
      Rounding = RoundHalfUp\<rparr>
     Quantize \<lparr>Form = Finite, Negative = False, Exponent = 0, Coeff = 12345\<rparr> 0 10
   = (\<lparr>Form = Finite, Negative = False, Exponent = 0, Coeff = 12345\<rparr>, None)
   \<and> LimitDecimalWidth
     \<lparr>Precision = 20, MaxExponent = 2000, MinExponent = - 2000, Traps = {},
      Rounding = RoundHalfUp\<rparr>
     Quantize \<lparr>Form = Finite, Negative = False, Exponent = 0, Coeff = 12345\<rparr> (- 1)
     (- 4294967296)
   = (\<lparr>Form = Finite, Negative = False, Exponent = 0, Coeff = 12345\<rparr>, None)"
proof -
  let ?ctx = "\<lparr>Precision = 20, MaxExponent = 2000, MinExponent = - 2000, Traps = {},
               Rounding = RoundHalfUp\<rparr>"
  let ?nan = "\<lparr>Form = NaN, Negative = False, Exponent = 0, Coeff = 0\<rparr>"
  let ?inf = "\<lparr>Form = Infinite, Negative = True, Exponent = 0, Coeff = 0\<rparr>"
  let ?fin = "\<lparr>Form = Finite, Negative = False, Exponent = 0, Coeff = 12345\<rparr>"
  have a: "Form ?nan \<noteq> Finite \<or> (5 :: go_int) \<le>s 0" by simp
  have b: "Form ?inf \<noteq> Finite \<or> (5 :: go_int) \<le>s 0" by simp
  have c: "Form ?fin \<noteq> Finite \<or> (0 :: go_int) \<le>s 0" by (simp add: word_sle_eq)
  have d: "Form ?fin \<noteq> Finite \<or> (- 1 :: go_int) \<le>s 0" by (simp add: word_sle_eq)
  show ?thesis
    using LimitDecimalWidth_noop [where quantize = Quantize and DecimalCtx = ?ctx, OF a]
      LimitDecimalWidth_noop [where quantize = Quantize and DecimalCtx = ?ctx, OF b]
      LimitDecimalWidth_noop [where quantize = Quantize and DecimalCtx = ?ctx, OF c]
      LimitDecimalWidth_noop [where quantize = Quantize and DecimalCtx = ?ctx, OF d]
    by simp
qed

subsection \<open>C10: the widths are checked before anything is read\<close>

text \<open>
  C10. With a line width below 1 or a tab width below 1, \<open>runSQLFmt\<close> returns the
  validation error and the world is as it was: standard input has not been read and the
  parser has not been called.
\<close>

theorem runSQLFmt_invalid_width:
  assumes "len sqlfmtCtx <s 1 \<or> tabWidth sqlfmtCtx <s 1"
  shows "runSQLFmt Parse Pretty DefaultPrettyCfg sqlfmtCtx w =
           (Some (Errorf (if len sqlfmtCtx <s 1
                          then ''line length must be > 0: '' @ fmt_d (sint (len sqlfmtCtx))
                          else ''tab width must be > 0: '' @ fmt_d (sint (tabWidth sqlfmtCtx)))),
            w)"
  using assms by (auto simp: runSQLFmt_def)

text \<open>A line width of 0, and a tab width of -1, with a statement waiting on standard input.\<close>

theorem runSQLFmt_invalid_width_witness:
  "runSQLFmt (\<lambda>s. Inr [s]) (\<lambda>cfg s. s)
     \<lparr>UseTabs = True, LineWidth = 60, TabWidth = 4, Simplify = True, Align = PrettyNoAlign,
      JSONFmt = False\<rparr>
     \<lparr>len = 0, useSpaces = True, tabWidth = 4, noSimplify = False, align = True,
      formatPath = []\<rparr>
     \<lparr>stdin = Inr ''SELECT 1'', trace = []\<rparr>
   = (Some (Errorf ''line length must be > 0: 0''), \<lparr>stdin = Inr ''SELECT 1'', trace = []\<rparr>)
   \<and> runSQLFmt (\<lambda>s. Inr [s]) (\<lambda>cfg s. s)
     \<lparr>UseTabs = True, LineWidth = 60, TabWidth = 4, Simplify = True, Align = PrettyNoAlign,
      JSONFmt = False\<rparr>
     \<lparr>len = 80, useSpaces = True, tabWidth = - 1, noSimplify = False, align = True,
      formatPath = []\<rparr>
     \<lparr>stdin = Inr ''SELECT 1'', trace = []\<rparr>
   = (Some (Errorf ''tab width must be > 0: -1''), \<lparr>stdin = Inr ''SELECT 1'', trace = []\<rparr>)"
  using
    runSQLFmt_invalid_width [where Parse = "\<lambda>s. Inr [s]" and Pretty = "\<lambda>cfg s. s"
      and DefaultPrettyCfg = "\<lparr>UseTabs = True, LineWidth = 60, TabWidth = 4, Simplify = True,
        Align = PrettyNoAlign, JSONFmt = False\<rparr>"
      and sqlfmtCtx = "\<lparr>len = 0, useSpaces = True, tabWidth = 4, noSimplify = False,
        align = True, formatPath = []\<rparr>"
      and w = "\<lparr>stdin = Inr ''SELECT 1'', trace = []\<rparr>"]
    runSQLFmt_invalid_width [where Parse = "\<lambda>s. Inr [s]" and Pretty = "\<lambda>cfg s. s"
      and DefaultPrettyCfg = "\<lparr>UseTabs = True, LineWidth = 60, TabWidth = 4, Simplify = True,
        Align = PrettyNoAlign, JSONFmt = False\<rparr>"
      and sqlfmtCtx = "\<lparr>len = 80, useSpaces = True, tabWidth = - 1, noSimplify = False,
        align = True, formatPath = []\<rparr>"
      and w = "\<lparr>stdin = Inr ''SELECT 1'', trace = []\<rparr>"]
  by (simp add: word_sless_alt fmt_d_def digits10.simps)

end
